theory Spec2Isabelle
  imports Main "HOL-Library.Sublist"
begin

section \<open>Python strings and \<open>os.path\<close> (posixpath)\<close>

text \<open>
  Python strings are modelled as \<open>string\<close>.  \<open>s.startswith(p)\<close> is the prefix test,
  \<open>s[n:]\<close> is \<open>drop n s\<close>, \<open>'/' in s\<close> is membership in \<open>set s\<close>.
\<close>

definition startswith :: "string \<Rightarrow> string \<Rightarrow> bool" where
  "startswith s p = prefix p s"

definition endswith_slash :: "string \<Rightarrow> bool" where
  "endswith_slash s = (s \<noteq> [] \<and> last s = CHR ''/'')"

text \<open>
  \<open>posixpath.join(a, *p)\<close> of the standard library: a component that starts with a slash
  replaces what was joined so far; a separator is inserted unless the path so far is empty
  or already ends with one.
\<close>

definition join2 :: "string \<Rightarrow> string \<Rightarrow> string" where
  "join2 path b =
     (if startswith b ''/'' then b
      else if path = [] \<or> endswith_slash path then path @ b
      else path @ ''/'' @ b)"

definition os_path_join :: "string \<Rightarrow> string list \<Rightarrow> string" where
  "os_path_join a p = foldl join2 a p"

text \<open>
  \<open>posixpath.split(p)\<close>: \<open>i = p.rfind('/') + 1; head, tail = p[:i], p[i:]\<close>, and the
  trailing slashes of a head that does not consist of slashes only are stripped.
\<close>

definition rstrip_slash :: "string \<Rightarrow> string" where
  "rstrip_slash s = rev (dropWhile (\<lambda>c. c = CHR ''/'') (rev s))"

definition os_path_split :: "string \<Rightarrow> string \<times> string" where
  "os_path_split p =
     (let hd0 = rev (dropWhile (\<lambda>c. c \<noteq> CHR ''/'') (rev p));
          tl0 = rev (takeWhile (\<lambda>c. c \<noteq> CHR ''/'') (rev p))
      in (if hd0 \<noteq> [] \<and> hd0 \<noteq> replicate (length hd0) (CHR ''/'') then rstrip_slash hd0 else hd0,
          tl0))"

text \<open>\<open>str(x)\<close> and \<open>'{}'.format(x)\<close> of a value that is a string or \<open>None\<close>.\<close>

definition str_of :: "string option \<Rightarrow> string" where
  "str_of x = (case x of None \<Rightarrow> ''None'' | Some s \<Rightarrow> s)"

section \<open>Data model\<close>

text \<open>
  A \<open>ResourceFile\<close> row: the three legacy name fields and the recorded folder.  The
  back reference \<open>file.resource\<close> is passed alongside the row.
\<close>

record resource_file =
  resource_file_name :: "string option"
  fed_resource_file_name :: "string option"
  fed_resource_file_name_or_path :: "string option"
  file_folder :: "string option"

text \<open>
  A \<open>BaseResource\<close>, with the fields the checker reads; \<open>title\<close> stands for
  \<open>metadata.title.value\<close> and \<open>files\<close> for \<open>files.all()\<close>.
\<close>

record resource =
  short_id :: string
  resource_federation_path :: "string option"
  resource_type :: string
  title :: string
  files :: "resource_file list"

text \<open>
  The storage.  \<open>IrodsStorage("federated")\<close> and \<open>IrodsStorage()\<close> are two
  handles; \<open>exists\<close> answers a boolean, \<open>listdir\<close> answers \<open>(directories, files)\<close> or
  raises \<open>SessionException\<close> (\<open>None\<close> here).  \<open>remote_use_irods\<close> is
  \<open>settings.REMOTE_USE_IRODS\<close>.
\<close>

datatype irods_storage = Federated | Default

record env =
  irods_exists :: "irods_storage \<Rightarrow> string \<Rightarrow> bool"
  irods_listdir :: "irods_storage \<Rightarrow> string \<Rightarrow> (string list \<times> string list) option"
  remote_use_irods :: bool

text \<open>
  What a run does besides returning: lines printed on stdout, records sent to the logger,
  and the calls made to the storage, in the order they happen.
\<close>

datatype event =
    Print string
  | LogInfo string
  | LogError string
  | CallExists irods_storage string
  | CallListdir irods_storage string

datatype exn = ValidationError string | TypeError

section \<open>Clones of the \<open>BaseResource\<close> path routines\<close>

definition is_federated :: "resource \<Rightarrow> bool" where
  "is_federated r =
     (resource_federation_path r \<noteq> None \<and> resource_federation_path r \<noteq> Some '''')"

definition root_path :: "resource \<Rightarrow> string" where
  "root_path r =
     (if is_federated r
      then os_path_join (str_of (resource_federation_path r)) [short_id r]
      else short_id r)"

definition file_path :: "resource \<Rightarrow> string" where
  "file_path r = os_path_join (root_path r) [''data'', ''contents'']"

definition get_resource_file_path :: "resource \<Rightarrow> string \<Rightarrow> string option \<Rightarrow> string" where
  "get_resource_file_path r filename folder =
     (case folder of
        Some fo \<Rightarrow> os_path_join (file_path r) [fo, filename]
      | None \<Rightarrow> os_path_join (file_path r) [filename])"

definition get_path :: "resource \<Rightarrow> string \<Rightarrow> string option \<Rightarrow> string" where
  "get_path r filename folder = get_resource_file_path r filename folder"

definition get_irods_storage :: "resource \<Rightarrow> irods_storage" where
  "get_irods_storage r = (if is_federated r then Federated else Default)"

text \<open>
  The guard \<open>test_exists and not storage.exists(p)\<close>: the storage is asked only when
  \<open>test_exists\<close> holds.
\<close>

definition test_missing :: "env \<Rightarrow> irods_storage \<Rightarrow> bool \<Rightarrow> string \<Rightarrow> bool \<times> event list" where
  "test_missing e storage test_exists p =
     (if test_exists then (\<not> irods_exists e storage p, [CallExists storage p])
      else (False, []))"

text \<open>
  \<open>resource_path_is_acceptable\<close>, in its two parts.  The first part strips the
  qualification of the path: \<open>fedpath\<close> counts as set when it is neither \<open>None\<close> nor
  empty (\<open>if fedpath and ...\<close>).
\<close>

definition strip_qualification ::
  "env \<Rightarrow> resource \<Rightarrow> string \<Rightarrow> bool \<Rightarrow> (exn + string) \<times> event list" where
  "strip_qualification e r path test_exists =
     (let storage = get_irods_storage r;
          locpath = os_path_join (short_id r) [''data'', ''contents''] @ ''/'';
          fedpath = (case resource_federation_path r of None \<Rightarrow> [] | Some fp \<Rightarrow> fp)
      in if fedpath \<noteq> [] \<and> startswith path (fedpath @ ''/'') then
           (if fst (test_missing e storage test_exists path)
            then (Inl (ValidationError ''Federated path does not exist in irods''),
                  snd (test_missing e storage test_exists path))
            else if startswith (drop (length (fedpath @ ''/'')) path) locpath
            then (Inr (drop (length locpath) (drop (length (fedpath @ ''/'')) path)),
                  snd (test_missing e storage test_exists path))
            else (Inl (ValidationError ''Malformed federated resource path''),
                  snd (test_missing e storage test_exists path)))
         else if startswith path locpath then
           (if fst (test_missing e storage test_exists path)
            then (Inl (ValidationError ''Local path does not exist in irods''),
                  snd (test_missing e storage test_exists path))
            else (Inr (drop (length locpath) path),
                  snd (test_missing e storage test_exists path)))
         else (Inr path, []))"

text \<open>The second part: "now we have folder/file".\<close>

definition split_relpath :: "string \<Rightarrow> string option \<times> string" where
  "split_relpath relpath =
     (if CHR ''/'' \<in> set relpath
      then (Some (fst (os_path_split relpath)), snd (os_path_split relpath))
      else (None, relpath))"

definition resource_path_is_acceptable ::
  "env \<Rightarrow> resource \<Rightarrow> string \<Rightarrow> bool \<Rightarrow> (exn + string option \<times> string) \<times> event list" where
  "resource_path_is_acceptable e r path test_exists =
     (case strip_qualification e r path test_exists of
        (Inl err, ev1) \<Rightarrow> (Inl err, ev1)
      | (Inr relpath, ev1) \<Rightarrow>
          (let (folder, base) = split_relpath relpath;
               abspath = get_resource_file_path r base folder
           in if fst (test_missing e (get_irods_storage r) test_exists abspath)
              then (Inl (ValidationError ''Local path does not exist in irods''),
                    ev1 @ snd (test_missing e (get_irods_storage r) test_exists abspath))
              else (Inr (folder, base),
                    ev1 @ snd (test_missing e (get_irods_storage r) test_exists abspath))))"

definition path_is_acceptable ::
  "env \<Rightarrow> resource \<Rightarrow> string \<Rightarrow> bool \<Rightarrow> (exn + string option \<times> string) \<times> event list" where
  "path_is_acceptable e r path test_exists = resource_path_is_acceptable e r path test_exists"

definition get_path_from_storage_path ::
  "env \<Rightarrow> resource \<Rightarrow> string \<Rightarrow> bool \<Rightarrow> (exn + string) \<times> event list" where
  "get_path_from_storage_path e r path test_exists =
     (case path_is_acceptable e r path test_exists of
        (Inl err, ev) \<Rightarrow> (Inl err, ev)
      | (Inr (folder, base), ev) \<Rightarrow> (Inr (get_path r base folder), ev))"

definition get_path_from_short_path ::
  "env \<Rightarrow> resource \<Rightarrow> string \<Rightarrow> bool \<Rightarrow> (exn + string) \<times> event list" where
  "get_path_from_short_path e r path test_exists =
     (let (folder0, base) = os_path_split path;
          folder = (if folder0 = [] then None else Some folder0);
          path' = get_path r base folder
      in if test_exists then
           (if \<not> irods_exists e (get_irods_storage r) path'
            then (Inl (ValidationError (''path '' @ path' @ '' does not exist in iRODS'')),
                  [CallExists (get_irods_storage r) path'])
            else (Inr path', [CallExists (get_irods_storage r) path']))
         else (Inr path', []))"

section \<open>Effective path of a file record\<close>

text \<open>
  \<open>get_effective_path\<close> returns either the bare value \<open>None\<close> (the early return of the
  "more than one name" branch) or the triple \<open>(inferred_path, file_file_folder, orig_path)\<close>.
\<close>

datatype effective_path =
    BareNone
  | Triple "string option" "string option" "string option"

text \<open>"convert meaningless values to None"\<close>

definition norm_name :: "string option \<Rightarrow> string option" where
  "norm_name x = (if x = Some [] \<or> x = Some ''None'' then None else x)"

definition nnames_of :: "string option \<Rightarrow> string option \<Rightarrow> string option \<Rightarrow> string list" where
  "nnames_of a b c =
     (case a of None \<Rightarrow> [] | Some n \<Rightarrow> [n]) @
     (case b of None \<Rightarrow> [] | Some n \<Rightarrow> [n]) @
     (case c of None \<Rightarrow> [] | Some n \<Rightarrow> [n])"

definition for_resource :: "resource \<Rightarrow> string" where
  "for_resource r = short_id r @ '' ('' @ resource_type r @ '')''"

text \<open>
  The tail shared by the unqualified branches: rebuild the path from the folder of the
  record and the base name, then ask the storage (\<open>istorage\<close> of the top of the function).
  \<open>found\<close> is the text of the INFO line printed when the path exists.
\<close>

definition qualify_short ::
  "env \<Rightarrow> resource \<Rightarrow> string option \<Rightarrow> string \<Rightarrow> string \<Rightarrow> (exn + string option) \<times> event list" where
  "qualify_short e r file_file_folder base found =
     (case (case file_file_folder of
              None \<Rightarrow> get_path_from_short_path e r base False
            | Some ff \<Rightarrow> get_path_from_short_path e r (os_path_join ff [base]) False) of
        (Inl err, ev) \<Rightarrow> (Inl err, ev)
      | (Inr inferred_path, ev) \<Rightarrow>
          (Inr (Some inferred_path),
           ev @ [CallExists (get_irods_storage r) inferred_path] @
           (if \<not> irods_exists e (get_irods_storage r) inferred_path
            then [Print (''ERROR: inferred path '' @ inferred_path @ '' does not exist'')]
            else [Print found])))"

text \<open>
  The two INFO lines of the unqualified branches.  In the source the call of \<open>format\<close>
  binds to the second string literal of the concatenation only, so the braces of the first
  literal are printed as they are and the arguments fill the second literal from the left
  (surplus arguments are ignored).
\<close>

definition found_unfederated_msg :: "string \<Rightarrow> string" where
  "found_unfederated_msg path =
     ''INFO: found unqualified unfederated name '' @ [CHR 0x27] @ ''{}'' @ [CHR 0x27] @
     '' with folder {} qualified to '' @ [CHR 0x27] @ path @ [CHR 0x27]"

definition found_federated_msg :: "string \<Rightarrow> string option \<Rightarrow> string" where
  "found_federated_msg path file_file_folder =
     ''INFO: found unqualified federated name '' @ [CHR 0x27] @ ''{}'' @ [CHR 0x27] @
     '' with folder '' @ [CHR 0x27] @ path @ [CHR 0x27] @
     '' qualified to '' @ [CHR 0x27] @ str_of file_file_folder @ [CHR 0x27]"

text \<open>Part 1: \<open>file.resource_file.name\<close> is set.  Returns the inferred path.\<close>

definition gep_unfederated ::
  "env \<Rightarrow> resource \<Rightarrow> string option \<Rightarrow> string \<Rightarrow> (exn + string option) \<times> event list" where
  "gep_unfederated e r file_file_folder name =
     (if is_federated r then
        (Inr None,
         [Print (''ERROR: unfederated file declared for federated resource '' @
                 for_resource r @ '': '' @ name)])
      else if startswith name (file_path r) then
        (case path_is_acceptable e r name True of
           (Inr _, ev) \<Rightarrow> (Inr (Some name), ev)
         | (Inl (ValidationError _), ev) \<Rightarrow>
             (Inr None,
              ev @ [Print (''ERROR: existing path '' @ name @ '' is not conformant for '' @
                           for_resource r)])
         | (Inl err, ev) \<Rightarrow> (Inl err, ev))
      else
        (let stripped = startswith name ''data/contents/'';
             path = (if stripped then drop (length ''data/contents/'') name else name);
             ev1 = (if stripped
                    then [Print (''INFO stripping data/contents/ from unfederated path '' @ name)]
                    else []);
             (folder0, base) = os_path_split path;
             folder = (if folder0 = [] then None else Some folder0);
             ev2 = (if folder \<noteq> None \<and> file_file_folder \<noteq> folder
                    then [Print (''WARNING: declared folder '' @ str_of file_file_folder @
                                 '' is not path folder '' @ str_of folder @ '' for '' @
                                 for_resource r),
                          Print (''INFO: Assuming folder is '' @ str_of file_file_folder)]
                    else [])
         in case qualify_short e r file_file_folder base (found_unfederated_msg path) of
              (res, ev3) \<Rightarrow> (res, ev1 @ ev2 @ ev3)))"

text \<open>
  Part 2: \<open>file.fed_resource_file.name\<close> is set.  Returns the inferred path and the
  (possibly replaced) \<open>file_file_folder\<close>.
\<close>

definition gep_federated ::
  "env \<Rightarrow> resource \<Rightarrow> string option \<Rightarrow> string \<Rightarrow>
   (exn + string option \<times> string option) \<times> event list" where
  "gep_federated e r file_file_folder name =
     (let ev0 = (if \<not> is_federated r
                 then [Print (''ERROR: federated file declared for unfederated resource '' @
                              for_resource r @ '': '' @ name)]
                 else [])
      in if startswith name (file_path r) then
           (case path_is_acceptable e r name True of
              (Inr (folder0, base), ev) \<Rightarrow>
                (let folder = (if folder0 = Some [] then None else folder0) in
                 if folder \<noteq> None \<and> file_file_folder \<noteq> folder
                 then (Inr (Some name, folder),
                       ev0 @ ev @
                       [Print (''WARNING: declared folder '' @ str_of file_file_folder @
                               '' is not path folder '' @ str_of folder @ '' for '' @
                               for_resource r)])
                 else (Inr (Some name, file_file_folder), ev0 @ ev))
            | (Inl (ValidationError _), ev) \<Rightarrow>
                (Inr (None, file_file_folder),
                 ev0 @ ev @
                 [Print (''ERROR: existing path '' @ name @ '' is not conformant for '' @
                         for_resource r)])
            | (Inl err, ev) \<Rightarrow> (Inl err, ev0 @ ev))
         else if startswith name (short_id r) then
           (Inr (None, file_file_folder),
            ev0 @ [Print (''ERROR: unfederated path '' @ name @
                          '' used for federated resource for '' @ for_resource r)])
         else if startswith name ''/'' then
           (Inr (None, file_file_folder),
            ev0 @ [Print (''ERROR: non-conformant full path '' @ name @
                          '' for federated resource '' @ for_resource r)])
         else
           (let stripped = startswith name ''data/contents/'';
                path = (if stripped then drop (length ''data/contents/'') name else name);
                ev1 = (if stripped
                       then [Print (''WARNING: path '' @ name @
                                    '' starts with extra data header for '' @ for_resource r)]
                       else []);
                (folder, base) = os_path_split path;
                ev2 = (if Some folder \<noteq> file_file_folder
                       then [Print (''ERROR: inferred folder '' @ folder @
                                    '' != folder of record '' @ str_of file_file_folder @
                                    '', using folder of record'')]
                       else []) @
                      [Print (''INFO: Assuming folder is '' @ str_of file_file_folder)]
            in case qualify_short e r file_file_folder base
                      (found_federated_msg path file_file_folder) of
                 (Inl err, ev3) \<Rightarrow> (Inl err, ev0 @ ev1 @ ev2 @ ev3)
               | (Inr inferred, ev3) \<Rightarrow>
                   (Inr (inferred, file_file_folder), ev0 @ ev1 @ ev2 @ ev3)))"

text \<open>Part 3: \<open>file.fed_resource_file_name_or_path\<close> is set.  Returns the inferred path.\<close>

definition gep_name_or_path ::
  "env \<Rightarrow> resource \<Rightarrow> string \<Rightarrow> (exn + string option) \<times> event list" where
  "gep_name_or_path e r name =
     (let ev0 = (if \<not> is_federated r
                 then [Print (''WARNING: federated file name or path'' @
                              '' declared for unfederated resource '' @ for_resource r @
                              '': '' @ name)]
                 else []);
          stripped = startswith name ''data/contents/'';
          path = (if stripped then drop (length ''data/contents/'') name else name);
          ev1 = (if stripped
                 then [Print (''INFO: data/contents/ stripped from fed name or path: '' @ path @
                              '' for '' @ for_resource r)]
                 else [])
      in case (if startswith path (file_path r)
               then get_path_from_storage_path e r path False
               else get_path_from_short_path e r path False) of
           (Inl err, ev) \<Rightarrow> (Inl err, ev0 @ ev1 @ ev)
         | (Inr inferred_path, ev) \<Rightarrow> (Inr (Some inferred_path), ev0 @ ev1 @ ev))"

text \<open>The last two tests of the function, on the inferred path.\<close>

definition gep_final :: "env \<Rightarrow> resource \<Rightarrow> string option \<Rightarrow> event list" where
  "gep_final e r inferred_path =
     (case inferred_path of
        Some p \<Rightarrow>
          [CallExists (get_irods_storage r) p] @
          (if \<not> irods_exists e (get_irods_storage r) p
           then [Print (''ERROR: inferred path '' @ [CHR 0x27] @ p @ [CHR 0x27] @
                        '' does not exist'')]
           else [])
      | None \<Rightarrow> [Print (''ERROR: no valid file name defined for '' @ for_resource r)])"

definition get_effective_path ::
  "env \<Rightarrow> resource \<Rightarrow> resource_file \<Rightarrow> (exn + effective_path) \<times> event list" where
  "get_effective_path e r f =
     (let file_resource_file_name = norm_name (resource_file_name f);
          file_fed_resource_file_name = norm_name (fed_resource_file_name f);
          file_fed_resource_file_name_or_path = norm_name (fed_resource_file_name_or_path f);
          file_file_folder = file_folder f;
          nnames = nnames_of file_resource_file_name file_fed_resource_file_name
                     file_fed_resource_file_name_or_path
      in if length nnames > 1 then
           (Inr BareNone,
            Print ''ERROR: more than one name for file:'' #
            map (\<lambda>n. Print (''   '' @ n)) nnames)
         else
           (case (case file_resource_file_name of
                    None \<Rightarrow> (Inr None, [])
                  | Some name \<Rightarrow> gep_unfederated e r file_file_folder name) of
              (Inl err, ev1) \<Rightarrow> (Inl err, ev1)
            | (Inr inferred1, ev1) \<Rightarrow>
                (let orig1 = file_resource_file_name in
                 case (case file_fed_resource_file_name of
                         Some name \<Rightarrow>
                           (case gep_federated e r file_file_folder name of
                              (Inl err, ev) \<Rightarrow> (Inl err, ev)
                            | (Inr (inferred, folder), ev) \<Rightarrow>
                                (Inr (case inferred of None \<Rightarrow> inferred1 | Some p \<Rightarrow> Some p,
                                      folder, Some name), ev))
                       | None \<Rightarrow>
                           (case file_fed_resource_file_name_or_path of
                              Some name \<Rightarrow>
                                (case gep_name_or_path e r name of
                                   (Inl err, ev) \<Rightarrow> (Inl err, ev)
                                 | (Inr inferred, ev) \<Rightarrow>
                                     (Inr (inferred, file_file_folder, Some name), ev))
                            | None \<Rightarrow> (Inr (inferred1, file_file_folder, orig1), []))) of
                   (Inl err, ev2) \<Rightarrow> (Inl err, ev1 @ ev2)
                 | (Inr (inferred_path, folder, orig_path), ev2) \<Rightarrow>
                     (Inr (Triple inferred_path folder orig_path),
                      ev1 @ ev2 @ gep_final e r inferred_path))))"


section \<open>The reconciliation check\<close>

record check_options =
  stop_on_error :: bool
  log_errors :: bool
  echo_errors :: bool
  return_errors :: bool

text \<open>
  The reporting idiom of the checker: \<open>if echo_errors: print(msg)\<close>, then
  \<open>if log_errors: logger.error(msg)\<close>; and \<open>if return_errors: errors.append(msg)\<close>.
\<close>

definition emit_error :: "check_options \<Rightarrow> string \<Rightarrow> event list" where
  "emit_error opts msg =
     (if echo_errors opts then [Print msg] else []) @
     (if log_errors opts then [LogError msg] else [])"

definition emit_info :: "check_options \<Rightarrow> string \<Rightarrow> event list" where
  "emit_info opts msg =
     (if echo_errors opts then [Print msg] else []) @
     (if log_errors opts then [LogInfo msg] else [])"

definition collect :: "check_options \<Rightarrow> string \<Rightarrow> string list" where
  "collect opts msg = (if return_errors opts then [msg] else [])"

subsection \<open>Step 2: the walk of the storage tree\<close>

definition missing_in_django_msg :: "string \<Rightarrow> string" where
  "missing_in_django_msg fullpath =
     ''check_irods_files: file '' @ fullpath @ '' in iRODs does not exist in Django''"

definition listing_failed_msg :: "string \<Rightarrow> string" where
  "listing_failed_msg dir =
     ''check_irods_files: listing of iRODS directory '' @ dir @ '' failed''"

text \<open>The loop over \<open>listing[1]\<close>, the files of one directory.\<close>

fun files_loop ::
  "check_options \<Rightarrow> (string \<rightharpoonup> nat) \<Rightarrow> string \<Rightarrow> string list \<Rightarrow> string list \<Rightarrow> nat \<Rightarrow>
   (exn + string list \<times> nat) \<times> event list" where
  "files_loop opts all_paths dir [] errors ecount = (Inr (errors, ecount), [])"
| "files_loop opts all_paths dir (fname # rest) errors ecount =
     (if all_paths (os_path_join dir [fname]) = None then
        (if stop_on_error opts
         then (Inl (ValidationError (missing_in_django_msg (os_path_join dir [fname]))),
               emit_error opts (missing_in_django_msg (os_path_join dir [fname])))
         else (fst (files_loop opts all_paths dir rest
                      (errors @ collect opts (missing_in_django_msg (os_path_join dir [fname])))
                      (ecount + 1)),
               emit_error opts (missing_in_django_msg (os_path_join dir [fname])) @
               snd (files_loop opts all_paths dir rest
                      (errors @ collect opts (missing_in_django_msg (os_path_join dir [fname])))
                      (ecount + 1))))
      else files_loop opts all_paths dir rest errors ecount)"

text \<open>
  The loop over \<open>listing[0]\<close>, the subdirectories; \<open>walk\<close> is the recursive call.  A
  result \<open>None\<close> of the walk (the recursion went deeper than the fuel) ends the loop, as
  does an exception.
\<close>

fun dirs_loop ::
  "(string \<Rightarrow> (exn + string list \<times> nat) option \<times> event list) \<Rightarrow> string \<Rightarrow> string list \<Rightarrow>
   string list \<Rightarrow> nat \<Rightarrow> (exn + string list \<times> nat) option \<times> event list" where
  "dirs_loop walk dir [] errors ecount = (Some (Inr (errors, ecount)), [])"
| "dirs_loop walk dir (dname # rest) errors ecount =
     (case walk (os_path_join dir [dname]) of
        (None, ev) \<Rightarrow> (None, ev)
      | (Some (Inl err), ev) \<Rightarrow> (Some (Inl err), ev)
      | (Some (Inr (error2, ecount2)), ev) \<Rightarrow>
          (fst (dirs_loop walk dir rest (errors @ error2) (ecount + ecount2)),
           ev @ snd (dirs_loop walk dir rest (errors @ error2) (ecount + ecount2))))"

text \<open>
  \<open>__resource_check_irods_directory\<close>.  The recursion follows the directories the storage
  lists, which nothing bounds; the first argument bounds its depth, and the result
  \<open>None\<close> says that the bound was reached.
\<close>

primrec resource_check_irods_directory ::
  "nat \<Rightarrow> env \<Rightarrow> resource \<Rightarrow> (string \<rightharpoonup> nat) \<Rightarrow> check_options \<Rightarrow> string \<Rightarrow>
   (exn + string list \<times> nat) option \<times> event list" where
  "resource_check_irods_directory 0 e r all_paths opts = (\<lambda>dir. (None, []))"
| "resource_check_irods_directory (Suc fuel) e r all_paths opts =
     (\<lambda>dir.
        case irods_listdir e (get_irods_storage r) dir of
          None \<Rightarrow>
            (if stop_on_error opts
             then Some (Inl (ValidationError (listing_failed_msg dir)))
             else Some (Inr (collect opts (listing_failed_msg dir), 1)),
             CallListdir (get_irods_storage r) dir # emit_error opts (listing_failed_msg dir))
        | Some (dnames, fnames) \<Rightarrow>
            (case files_loop opts all_paths dir fnames [] 0 of
               (Inl err, ev1) \<Rightarrow>
                 (Some (Inl err), CallListdir (get_irods_storage r) dir # ev1)
             | (Inr (errors, ecount), ev1) \<Rightarrow>
                 (fst (dirs_loop (resource_check_irods_directory fuel e r all_paths opts)
                         dir dnames errors ecount),
                  CallListdir (get_irods_storage r) dir # ev1 @
                  snd (dirs_loop (resource_check_irods_directory fuel e r all_paths opts)
                         dir dnames errors ecount))))"

subsection \<open>Step 1: the file records\<close>

definition missing_in_irods_msg :: "string option \<Rightarrow> string option \<Rightarrow> string option \<Rightarrow> string" where
  "missing_in_irods_msg orig folder path =
     ''check_irods_files: django file '' @ str_of orig @ '' in folder '' @ str_of folder @
     '', resolved to '' @ str_of path @ '', does not exist in iRODS''"

text \<open>
  The loop over \<open>self.files.all()\<close>.  Unpacking the bare \<open>None\<close> of
  \<open>get_effective_path\<close> into \<open>path, folder, orig\<close> raises \<open>TypeError\<close>.
\<close>

fun step1 ::
  "env \<Rightarrow> resource \<Rightarrow> check_options \<Rightarrow> resource_file list \<Rightarrow> (string \<rightharpoonup> nat) \<Rightarrow> string list \<Rightarrow>
   nat \<Rightarrow> (exn + (string \<rightharpoonup> nat) \<times> string list \<times> nat) \<times> event list" where
  "step1 e r opts [] all_paths errors ecount = (Inr (all_paths, errors, ecount), [])"
| "step1 e r opts (f # rest) all_paths errors ecount =
     (case get_effective_path e r f of
        (Inl err, ev) \<Rightarrow> (Inl err, ev)
      | (Inr BareNone, ev) \<Rightarrow> (Inl TypeError, ev)
      | (Inr (Triple None folder orig), ev) \<Rightarrow>
          (if stop_on_error opts
           then (Inl (ValidationError (missing_in_irods_msg orig folder None)),
                 ev @ emit_error opts (missing_in_irods_msg orig folder None))
           else (fst (step1 e r opts rest all_paths
                        (errors @ collect opts (missing_in_irods_msg orig folder None))
                        (ecount + 1)),
                 ev @ emit_error opts (missing_in_irods_msg orig folder None) @
                 snd (step1 e r opts rest all_paths
                        (errors @ collect opts (missing_in_irods_msg orig folder None))
                        (ecount + 1))))
      | (Inr (Triple (Some path) folder orig), ev) \<Rightarrow>
          (if \<not> irods_exists e (get_irods_storage r) path then
             (if stop_on_error opts
              then (Inl (ValidationError (missing_in_irods_msg orig folder (Some path))),
                    ev @ [CallExists (get_irods_storage r) path] @
                    emit_error opts (missing_in_irods_msg orig folder (Some path)))
              else (fst (step1 e r opts rest (all_paths(path \<mapsto> 1))
                           (errors @ collect opts (missing_in_irods_msg orig folder (Some path)))
                           (ecount + 1)),
                    ev @ [CallExists (get_irods_storage r) path] @
                    emit_error opts (missing_in_irods_msg orig folder (Some path)) @
                    snd (step1 e r opts rest (all_paths(path \<mapsto> 1))
                           (errors @ collect opts (missing_in_irods_msg orig folder (Some path)))
                           (ecount + 1))))
           else (fst (step1 e r opts rest (all_paths(path \<mapsto> 1)) errors ecount),
                 ev @ [CallExists (get_irods_storage r) path] @
                 snd (step1 e r opts rest (all_paths(path \<mapsto> 1)) errors ecount))))"

subsection \<open>\<open>resource_check_irods_files\<close>\<close>

definition federation_prefix_msg :: "resource \<Rightarrow> string" where
  "federation_prefix_msg r =
     ''check_irods_files: federation prefix is '' @ str_of (resource_federation_path r)"

definition skipping_msg :: "resource \<Rightarrow> string" where
  "skipping_msg r = ''check_irods_files: skipping check of federated resource '' @ short_id r"

definition no_root_msg :: "resource \<Rightarrow> string" where
  "no_root_msg r = ''iRODS directory for resource '' @ short_id r @ '' does not exist at all''"

definition affected_msg :: "resource \<Rightarrow> string" where
  "affected_msg r =
     ''check_irods_files: affected resource '' @ short_id r @ '' type is '' @ resource_type r @
     '', title is '' @ [CHR 0x27] @ title r @ [CHR 0x27]"

text \<open>
  Steps 1 and 2, or the notice that they are skipped for a federated resource when the
  deployment does not reach federated storage.
\<close>

definition steps_1_2 ::
  "nat \<Rightarrow> env \<Rightarrow> resource \<Rightarrow> check_options \<Rightarrow> (exn + string list \<times> nat) option \<times> event list" where
  "steps_1_2 fuel e r opts =
     (if is_federated r \<and> \<not> remote_use_irods e then
        (Some (Inr ([], 0)), emit_info opts (skipping_msg r))
      else
        (case step1 e r opts (files r) Map.empty [] 0 of
           (Inl err, ev1) \<Rightarrow> (Some (Inl err), ev1)
         | (Inr (all_paths, errors, ecount), ev1) \<Rightarrow>
             (case resource_check_irods_directory fuel e r all_paths opts (file_path r) of
                (None, ev2) \<Rightarrow> (None, ev1 @ ev2)
              | (Some (Inl err), ev2) \<Rightarrow> (Some (Inl err), ev1 @ ev2)
              | (Some (Inr (error2, ecount2)), ev2) \<Rightarrow>
                  (Some (Inr (errors @ error2, ecount + ecount2)), ev1 @ ev2))))"

text \<open>Step 3: "does resource exist at all?"\<close>

definition rpath_of :: "resource \<Rightarrow> string" where
  "rpath_of r =
     (if is_federated r
      then os_path_join (str_of (resource_federation_path r)) [short_id r]
      else short_id r)"

definition step3 ::
  "env \<Rightarrow> resource \<Rightarrow> check_options \<Rightarrow> string list \<Rightarrow> nat \<Rightarrow> (string list \<times> nat) \<times> event list" where
  "step3 e r opts errors ecount =
     (if \<not> irods_exists e (get_irods_storage r) (rpath_of r)
      then ((errors @ collect opts (no_root_msg r), ecount + 1),
            CallExists (get_irods_storage r) (rpath_of r) # emit_error opts (no_root_msg r))
      else ((errors, ecount), [CallExists (get_irods_storage r) (rpath_of r)]))"

text \<open>
  The closing report: "print information about the affected resource (not really an
  error)"; here the logger comes before the echo.
\<close>

definition summary ::
  "resource \<Rightarrow> check_options \<Rightarrow> string list \<Rightarrow> nat \<Rightarrow> (string list \<times> nat) \<times> event list" where
  "summary r opts errors ecount =
     (if ecount > 0
      then ((errors @ collect opts (affected_msg r), ecount),
            (if log_errors opts then [LogError (affected_msg r)] else []) @
            (if echo_errors opts then [Print (affected_msg r)] else []))
      else ((errors, ecount), []))"

definition resource_check_irods_files ::
  "nat \<Rightarrow> env \<Rightarrow> resource \<Rightarrow> check_options \<Rightarrow> (exn + string list \<times> nat) option \<times> event list" where
  "resource_check_irods_files fuel e r opts =
     (let ev0 = (if is_federated r then emit_info opts (federation_prefix_msg r) else []) in
      case steps_1_2 fuel e r opts of
        (None, ev1) \<Rightarrow> (None, ev0 @ ev1)
      | (Some (Inl err), ev1) \<Rightarrow> (Some (Inl err), ev0 @ ev1)
      | (Some (Inr (errors, ecount)), ev1) \<Rightarrow>
          (case step3 e r opts errors ecount of
             ((errors3, ecount3), ev3) \<Rightarrow>
               (case summary r opts errors3 ecount3 of
                  (res, ev4) \<Rightarrow> (Some (Inr res), ev0 @ ev1 @ ev3 @ ev4))))"

section \<open>Concrete resources, records and storage states\<close>

definition local_resource :: resource where
  "local_resource =
     \<lparr>short_id = ''abc'', resource_federation_path = None,
      resource_type = ''GenericResource'', title = ''T'', files = []\<rparr>"

definition federated_resource :: resource where
  "federated_resource =
     \<lparr>short_id = ''abc'', resource_federation_path = Some ''/zone/home'',
      resource_type = ''GenericResource'', title = ''T'', files = []\<rparr>"

definition everything_exists :: env where
  "everything_exists =
     \<lparr>irods_exists = (\<lambda>storage p. True), irods_listdir = (\<lambda>storage p. Some ([], [])),
      remote_use_irods = True\<rparr>"

definition nothing_exists :: env where
  "nothing_exists =
     \<lparr>irods_exists = (\<lambda>storage p. False), irods_listdir = (\<lambda>storage p. None),
      remote_use_irods = True\<rparr>"

definition collecting_options :: check_options where
  "collecting_options =
     \<lparr>stop_on_error = False, log_errors = True, echo_errors = True, return_errors = True\<rparr>"

definition unnamed_file :: resource_file where
  "unnamed_file =
     \<lparr>resource_file_name = None, fed_resource_file_name = None,
      fed_resource_file_name_or_path = None, file_folder = None\<rparr>"

definition default_options :: check_options where
  "default_options =
     \<lparr>stop_on_error = False, log_errors = True, echo_errors = False, return_errors = False\<rparr>"

definition stopping_options :: check_options where
  "stopping_options =
     \<lparr>stop_on_error = True, log_errors = True, echo_errors = False, return_errors = False\<rparr>"

definition federation_unreachable :: env where
  "federation_unreachable =
     \<lparr>irods_exists = (\<lambda>storage p. False), irods_listdir = (\<lambda>storage p. None),
      remote_use_irods = False\<rparr>"

definition empty_root :: env where
  "empty_root =
     \<lparr>irods_exists = (\<lambda>storage p. p = ''abc''),
      irods_listdir = (\<lambda>storage p. if p = ''abc'' then Some ([], []) else None),
      remote_use_irods = True\<rparr>"

definition two_names_file :: resource_file where
  "two_names_file =
     \<lparr>resource_file_name = Some ''a.txt'', fed_resource_file_name = Some ''b.txt'',
      fed_resource_file_name_or_path = None, file_folder = None\<rparr>"



definition one_file_storage :: env where
  "one_file_storage =
     \<lparr>irods_exists = (\<lambda>storage p. True),
      irods_listdir = (\<lambda>storage p.
        if p = ''abc/data/contents'' then Some ([], [''a.txt'']) else None),
      remote_use_irods = True\<rparr>"

definition federated_name_file :: resource_file where
  "federated_name_file =
     \<lparr>resource_file_name = None, fed_resource_file_name = Some ''abc/data/contents/a.txt'',
      fed_resource_file_name_or_path = None, file_folder = None\<rparr>"

definition local_name_file :: resource_file where
  "local_name_file =
     \<lparr>resource_file_name = Some ''a.txt'', fed_resource_file_name = None,
      fed_resource_file_name_or_path = None, file_folder = None\<rparr>"

section \<open>Notions used in the statements and proofs\<close>






text \<open>
  Well-formed fully qualified paths.  The root of the resource is well formed when, for a
  federated resource, the short id does not start with a slash and the federation path
  does not end with one, so that the root is the federation path, a slash and the short
  id.  A relative path is well formed when it neither starts with a slash nor has an empty
  segment (two slashes in a row).  A fully qualified path of a resource is its
  \<open>file_path\<close>, a slash, and a well-formed relative path.
\<close>

definition well_formed_resource :: "resource \<Rightarrow> bool" where
  "well_formed_resource r =
     (if is_federated r
      then \<not> startswith (short_id r) ''/'' \<and>
           \<not> endswith_slash (str_of (resource_federation_path r))
      else True)"

definition well_formed_relative :: "string \<Rightarrow> bool" where
  "well_formed_relative p = (\<not> startswith p ''/'' \<and> \<not> sublist ''//'' p)"

definition fully_qualified :: "resource \<Rightarrow> string \<Rightarrow> bool" where
  "fully_qualified r p =
     (startswith p (file_path r @ ''/'') \<and>
      well_formed_relative (drop (length (file_path r @ ''/'')) p))"

section \<open>Error list and error count\<close>



















section \<open>The check returns\<close>






section \<open>Events other than the closing report\<close>



































section \<open>Sentinel values of the name fields\<close>

text \<open>
  C9.  For each of the three legacy name fields, \<open>get_effective_path\<close> treats the empty
  string and the literal string "None" exactly as it treats an absent field: the whole
  outcome (result and everything printed or asked of the storage) is the same.
\<close>

theorem sentinel_is_absent:
  "get_effective_path e r (f\<lparr>resource_file_name := Some []\<rparr>) =
     get_effective_path e r (f\<lparr>resource_file_name := None\<rparr>) \<and>
   get_effective_path e r (f\<lparr>resource_file_name := Some ''None''\<rparr>) =
     get_effective_path e r (f\<lparr>resource_file_name := None\<rparr>) \<and>
   get_effective_path e r (f\<lparr>fed_resource_file_name := Some []\<rparr>) =
     get_effective_path e r (f\<lparr>fed_resource_file_name := None\<rparr>) \<and>
   get_effective_path e r (f\<lparr>fed_resource_file_name := Some ''None''\<rparr>) =
     get_effective_path e r (f\<lparr>fed_resource_file_name := None\<rparr>) \<and>
   get_effective_path e r (f\<lparr>fed_resource_file_name_or_path := Some []\<rparr>) =
     get_effective_path e r (f\<lparr>fed_resource_file_name_or_path := None\<rparr>) \<and>
   get_effective_path e r (f\<lparr>fed_resource_file_name_or_path := Some ''None''\<rparr>) =
     get_effective_path e r (f\<lparr>fed_resource_file_name_or_path := None\<rparr>)"
  by (simp add: get_effective_path_def norm_name_def)

section \<open>Path acceptance without existence tests\<close>

text \<open>
  C10.  With \<open>test_exists=False\<close>, \<open>resource_path_is_acceptable\<close> makes no call to the
  storage, its outcome is the same in any two storage states and for any two
  resources with the same short id and federation path, and the only exception it can
  raise is "Malformed federated resource path".
\<close>

theorem acceptable_without_test_ignores_storage:
  assumes "short_id r = short_id r'"
      and "resource_federation_path r = resource_federation_path r'"
  shows "resource_path_is_acceptable e r p False = resource_path_is_acceptable e' r' p False \<and>
         snd (resource_path_is_acceptable e r p False) = [] \<and>
         (\<forall>err. fst (resource_path_is_acceptable e r p False) = Inl err \<longrightarrow>
                err = ValidationError ''Malformed federated resource path'')"
  using assms
  by (auto simp: resource_path_is_acceptable_def strip_qualification_def test_missing_def
        get_resource_file_path_def file_path_def root_path_def is_federated_def
        get_irods_storage_def Let_def
      split: option.splits prod.splits)

theorem acceptable_without_test_witness:
  "short_id federated_resource = short_id (federated_resource\<lparr>title := ''other''\<rparr>) \<and>
   resource_federation_path federated_resource =
     resource_federation_path (federated_resource\<lparr>title := ''other''\<rparr>) \<and>
   resource_path_is_acceptable everything_exists federated_resource
     ''/zone/home/abc/data/contentsX'' False =
   resource_path_is_acceptable nothing_exists (federated_resource\<lparr>title := ''other''\<rparr>)
     ''/zone/home/abc/data/contentsX'' False \<and>
   resource_path_is_acceptable everything_exists federated_resource
     ''/zone/home/abc/data/contentsX'' False =
   (Inl (ValidationError ''Malformed federated resource path''), []) \<and>
   resource_path_is_acceptable nothing_exists federated_resource
     ''/zone/home/abc/data/contents/x/y.txt'' False = (Inr (Some ''x'', ''y.txt''), [])"
proof -
  have a: "short_id federated_resource = short_id (federated_resource\<lparr>title := ''other''\<rparr>)"
    by simp
  have b: "resource_federation_path federated_resource =
     resource_federation_path (federated_resource\<lparr>title := ''other''\<rparr>)"
    by simp
  have c: "resource_path_is_acceptable everything_exists federated_resource
     ''/zone/home/abc/data/contentsX'' False =
   (Inl (ValidationError ''Malformed federated resource path''), [])"
    by code_simp
  have d: "resource_path_is_acceptable nothing_exists federated_resource
     ''/zone/home/abc/data/contents/x/y.txt'' False = (Inr (Some ''x'', ''y.txt''), [])"
    by code_simp
  from acceptable_without_test_ignores_storage [OF a b, of everything_exists
      "''/zone/home/abc/data/contentsX''" nothing_exists] a b c d
  show ?thesis by simp
qed

section \<open>More than one name for a file\<close>

lemma header_not_a_name_line:
  "count_list (map (\<lambda>n. Print (''   '' @ n)) ns) (Print ''ERROR: more than one name for file:'') = 0"
  by (induction ns) auto

text \<open>
  C1 (the code departs from the claim).  When at least two of the three name fields are
  left after normalization, \<open>get_effective_path\<close> prints the line "more than one name
  for file" once, but what it returns is the bare \<open>None\<close>, not a triple whose first
  component is \<open>None\<close>; the unpacking \<open>path, folder, orig = ...\<close> in Step 1 then raises
  \<open>TypeError\<close>, whatever the options.
\<close>

theorem more_than_one_name_returns_bare_none:
  assumes "length (nnames_of (norm_name (resource_file_name f))
                     (norm_name (fed_resource_file_name f))
                     (norm_name (fed_resource_file_name_or_path f))) > 1"
  shows "fst (get_effective_path e r f) = Inr BareNone \<and>
         count_list (snd (get_effective_path e r f))
           (Print ''ERROR: more than one name for file:'') = 1 \<and>
         fst (step1 e r opts (f # rest) all_paths errors ecount) = Inl TypeError"
  using assms header_not_a_name_line
  by (simp add: get_effective_path_def Let_def)

theorem more_than_one_name_witness:
  "get_effective_path everything_exists local_resource two_names_file =
     (Inr BareNone,
      [Print ''ERROR: more than one name for file:'', Print ''   a.txt'', Print ''   b.txt'']) \<and>
   resource_check_irods_files 1 everything_exists
     (local_resource\<lparr>files := [two_names_file]\<rparr>) default_options =
     (Some (Inl TypeError),
      [Print ''ERROR: more than one name for file:'', Print ''   a.txt'', Print ''   b.txt''])"
proof -
  have a: "length (nnames_of (norm_name (resource_file_name two_names_file))
                     (norm_name (fed_resource_file_name two_names_file))
                     (norm_name (fed_resource_file_name_or_path two_names_file))) > 1"
    by code_simp
  have b: "get_effective_path everything_exists local_resource two_names_file =
     (Inr BareNone,
      [Print ''ERROR: more than one name for file:'', Print ''   a.txt'', Print ''   b.txt''])"
    by code_simp
  have c: "resource_check_irods_files 1 everything_exists
     (local_resource\<lparr>files := [two_names_file]\<rparr>) default_options =
     (Some (Inl TypeError),
      [Print ''ERROR: more than one name for file:'', Print ''   a.txt'', Print ''   b.txt''])"
    by code_simp
  from more_than_one_name_returns_bare_none [OF a, of everything_exists local_resource] b c
  show ?thesis by simp
qed

section \<open>A name field against the federation of the resource\<close>

lemma strip_raises_validation:
  "fst (strip_qualification e r p t) = Inl err \<Longrightarrow> \<exists>m. err = ValidationError m"
  by (auto simp: strip_qualification_def Let_def split: if_splits)

lemma rpia_raises_validation:
  "fst (resource_path_is_acceptable e r p t) = Inl err \<Longrightarrow> \<exists>m. err = ValidationError m"
  using strip_raises_validation [of e r p t]
  by (auto simp: resource_path_is_acceptable_def Let_def split: prod.splits sum.splits if_splits)

lemma short_path_returns:
  "get_path_from_short_path e r p False =
     (Inr (get_path r (snd (os_path_split p))
             (if fst (os_path_split p) = [] then None else Some (fst (os_path_split p)))), [])"
  by (simp add: get_path_from_short_path_def Let_def case_prod_beta)

lemma qualify_short_returns:
  "\<exists>p. fst (qualify_short e r ff base found) = Inr (Some p)"
  by (cases ff) (simp_all add: qualify_short_def short_path_returns)

lemma gep_federated_returns:
  "\<exists>inferred folder evs.
     gep_federated e r ff name =
       (Inr (inferred, folder),
        (if \<not> is_federated r
         then [Print (''ERROR: federated file declared for unfederated resource '' @
                      for_resource r @ '': '' @ name)]
         else []) @ evs)"
proof (cases "startswith name (file_path r)")
  case True
  obtain res ev where g: "path_is_acceptable e r name True = (res, ev)"
    by (cases "path_is_acceptable e r name True")
  show ?thesis
  proof (cases res)
    case (Inl err)
    with g rpia_raises_validation [of e r name True err] obtain m where
      "err = ValidationError m"
      by (auto simp: path_is_acceptable_def)
    with True g Inl show ?thesis
      by (simp add: gep_federated_def Let_def)
  next
    case (Inr a)
    obtain folder0 base where "a = (folder0, base)" by (cases a)
    with True g Inr show ?thesis
      by (simp add: gep_federated_def Let_def)
  qed
next
  case nq: False
  show ?thesis
  proof (cases "startswith name (short_id r) \<or> startswith name ''/''")
    case True
    with nq show ?thesis
      by (auto simp: gep_federated_def Let_def)
  next
    case False
    let ?path = "if startswith name ''data/contents/''
                 then drop (length ''data/contents/'') name else name"
    obtain res ev3 where g:
      "qualify_short e r ff (snd (os_path_split ?path)) (found_federated_msg ?path ff) =
         (res, ev3)"
      by (cases "qualify_short e r ff (snd (os_path_split ?path))
                   (found_federated_msg ?path ff)")
    with qualify_short_returns [of e r ff "snd (os_path_split ?path)"
           "found_federated_msg ?path ff"]
    obtain p where "res = Inr (Some p)" by auto
    with nq False g show ?thesis
      by (simp add: gep_federated_def Let_def case_prod_beta)
  qed
qed

text \<open>
  C2 (amended).  For a record whose only name left after normalization is the local name,
  on a federated resource: \<open>get_effective_path\<close> prints the mismatch error, infers no
  path (it returns \<open>None\<close> with the folder and the name of the record, after the error
  "no valid file name defined"), and Step 1 counts one error for the record.  For a record
  whose only name is the federated name, on an unfederated resource:
  \<open>get_effective_path\<close> prints the mismatch error first and returns a triple naming the
  record's name (it does not raise); what path it infers is left open here.
\<close>

theorem federation_mismatch_reported:
  "(norm_name (resource_file_name f) = Some name \<and>
    norm_name (fed_resource_file_name f) = None \<and>
    norm_name (fed_resource_file_name_or_path f) = None \<and> is_federated r \<longrightarrow>
      get_effective_path e r f =
        (Inr (Triple None (file_folder f) (Some name)),
         [Print (''ERROR: unfederated file declared for federated resource '' @
                 for_resource r @ '': '' @ name),
          Print (''ERROR: no valid file name defined for '' @ for_resource r)]) \<and>
      (\<not> stop_on_error opts \<longrightarrow>
         fst (step1 e r opts [f] all_paths errors ecount) =
           Inr (all_paths,
                errors @ collect opts (missing_in_irods_msg (Some name) (file_folder f) None),
                ecount + 1))) \<and>
   (norm_name (resource_file_name f) = None \<and>
    norm_name (fed_resource_file_name f) = Some name \<and>
    norm_name (fed_resource_file_name_or_path f) = None \<and> \<not> is_federated r \<longrightarrow>
      (\<exists>path folder evs.
         get_effective_path e r f =
           (Inr (Triple path folder (Some name)),
            Print (''ERROR: federated file declared for unfederated resource '' @
                   for_resource r @ '': '' @ name) # evs)))"
proof (intro conjI impI)
  assume a: "norm_name (resource_file_name f) = Some name \<and>
    norm_name (fed_resource_file_name f) = None \<and>
    norm_name (fed_resource_file_name_or_path f) = None \<and> is_federated r"
  then show g: "get_effective_path e r f =
        (Inr (Triple None (file_folder f) (Some name)),
         [Print (''ERROR: unfederated file declared for federated resource '' @
                 for_resource r @ '': '' @ name),
          Print (''ERROR: no valid file name defined for '' @ for_resource r)])"
    by (simp add: get_effective_path_def nnames_of_def gep_unfederated_def gep_final_def
          Let_def)
  assume "\<not> stop_on_error opts"
  with g show "fst (step1 e r opts [f] all_paths errors ecount) =
           Inr (all_paths,
                errors @ collect opts (missing_in_irods_msg (Some name) (file_folder f) None),
                ecount + 1)"
    by simp
next
  assume a: "norm_name (resource_file_name f) = None \<and>
    norm_name (fed_resource_file_name f) = Some name \<and>
    norm_name (fed_resource_file_name_or_path f) = None \<and> \<not> is_federated r"
  from gep_federated_returns [of e r "file_folder f" name] a
  obtain inferred folder evs where
    "gep_federated e r (file_folder f) name =
       (Inr (inferred, folder),
        Print (''ERROR: federated file declared for unfederated resource '' @
                      for_resource r @ '': '' @ name) # evs)"
    by auto
  with a show "\<exists>path folder evs.
         get_effective_path e r f =
           (Inr (Triple path folder (Some name)),
            Print (''ERROR: federated file declared for unfederated resource '' @
                   for_resource r @ '': '' @ name) # evs)"
    by (simp add: get_effective_path_def nnames_of_def Let_def)
qed

theorem federation_mismatch_counterexample:
  "\<not> is_federated local_resource \<and>
   norm_name (resource_file_name federated_name_file) = None \<and>
   norm_name (fed_resource_file_name federated_name_file) = Some ''abc/data/contents/a.txt'' \<and>
   norm_name (fed_resource_file_name_or_path federated_name_file) = None \<and>
   get_effective_path one_file_storage local_resource federated_name_file =
     (Inr (Triple (Some ''abc/data/contents/a.txt'') None (Some ''abc/data/contents/a.txt'')),
      [Print (''ERROR: federated file declared for unfederated resource '' @
              ''abc (GenericResource): abc/data/contents/a.txt''),
       CallExists Default ''abc/data/contents/a.txt'',
       CallExists Default ''abc/data/contents/a.txt'',
       CallExists Default ''abc/data/contents/a.txt'']) \<and>
   fst (resource_check_irods_files 1 one_file_storage
          (local_resource\<lparr>files := [federated_name_file]\<rparr>) collecting_options) =
     Some (Inr ([], 0))"
  by code_simp

theorem federation_mismatch_witness:
  "norm_name (resource_file_name local_name_file) = Some ''a.txt'' \<and>
   norm_name (fed_resource_file_name local_name_file) = None \<and>
   norm_name (fed_resource_file_name_or_path local_name_file) = None \<and>
   is_federated federated_resource \<and>
   get_effective_path everything_exists federated_resource local_name_file =
     (Inr (Triple None None (Some ''a.txt'')),
      [Print (''ERROR: unfederated file declared for federated resource '' @
              ''abc (GenericResource): a.txt''),
       Print ''ERROR: no valid file name defined for abc (GenericResource)'']) \<and>
   \<not> stop_on_error collecting_options \<and>
   fst (step1 everything_exists federated_resource collecting_options [local_name_file]
          Map.empty [] 0) =
     Inr (Map.empty, [missing_in_irods_msg (Some ''a.txt'') None None], 1) \<and>
   norm_name (resource_file_name federated_name_file) = None \<and>
   norm_name (fed_resource_file_name federated_name_file) = Some ''abc/data/contents/a.txt'' \<and>
   norm_name (fed_resource_file_name_or_path federated_name_file) = None \<and>
   \<not> is_federated local_resource \<and>
   hd (snd (get_effective_path one_file_storage local_resource federated_name_file)) =
     Print (''ERROR: federated file declared for unfederated resource '' @
            ''abc (GenericResource): abc/data/contents/a.txt'')"
proof -
  have a: "norm_name (resource_file_name local_name_file) = Some ''a.txt'' \<and>
   norm_name (fed_resource_file_name local_name_file) = None \<and>
   norm_name (fed_resource_file_name_or_path local_name_file) = None \<and>
   is_federated federated_resource"
    by code_simp
  have b: "get_effective_path everything_exists federated_resource local_name_file =
     (Inr (Triple None None (Some ''a.txt'')),
      [Print (''ERROR: unfederated file declared for federated resource '' @
              ''abc (GenericResource): a.txt''),
       Print ''ERROR: no valid file name defined for abc (GenericResource)''])"
    by code_simp
  have c: "\<not> stop_on_error collecting_options"
    by (simp add: collecting_options_def)
  have d: "fst (step1 everything_exists federated_resource collecting_options [local_name_file]
          Map.empty [] 0) =
     Inr (Map.empty, [missing_in_irods_msg (Some ''a.txt'') None None], 1)"
    using federation_mismatch_reported [of local_name_file "''a.txt''" federated_resource
            everything_exists collecting_options Map.empty "[]" 0] a c
    by (simp add: local_name_file_def collect_def collecting_options_def)
  have f: "norm_name (resource_file_name federated_name_file) = None \<and>
   norm_name (fed_resource_file_name federated_name_file) = Some ''abc/data/contents/a.txt'' \<and>
   norm_name (fed_resource_file_name_or_path federated_name_file) = None \<and>
   \<not> is_federated local_resource"
    by code_simp
  have g: "hd (snd (get_effective_path one_file_storage local_resource federated_name_file)) =
     Print (''ERROR: federated file declared for unfederated resource '' @
            ''abc (GenericResource): abc/data/contents/a.txt'')"
    by code_simp
  from federation_mismatch_reported [of local_name_file "''a.txt''" federated_resource
         everything_exists collecting_options Map.empty "[]" 0] a b c d f g
  show ?thesis by blast
qed

section \<open>Length of the returned error list\<close>




section \<open>Step 3 after Steps 1 and 2\<close>

text \<open>
  C4 (amended).  Steps 1 and 2 are skipped, with nothing counted, for a federated resource
  when the deployment does not reach federated storage.  Whenever Steps 1 and 2 end
  without raising (skipped or not), Step 3 runs: the storage is asked for the root path of
  the resource, and the count returned is the count of Steps 1 and 2 plus one exactly when
  the root is absent, its message being among the returned errors when errors are
  collected.  (An exception of Steps 1 and 2, such as the one \<open>stop_on_error\<close> asks for,
  ends the check before Step 3.)
\<close>

theorem step3_after_steps_1_2:
  "(is_federated r \<and> \<not> remote_use_irods e \<longrightarrow>
      fst (steps_1_2 fuel e r opts) = Some (Inr ([], 0))) \<and>
   (\<forall>errors ecount ev.
      steps_1_2 fuel e r opts = (Some (Inr (errors, ecount)), ev) \<longrightarrow>
      (\<exists>errors' evs.
         resource_check_irods_files fuel e r opts =
           (Some (Inr (errors',
              ecount + (if irods_exists e (get_irods_storage r) (rpath_of r) then 0 else 1))),
            evs) \<and>
         CallExists (get_irods_storage r) (rpath_of r) \<in> set evs \<and>
         (\<not> irods_exists e (get_irods_storage r) (rpath_of r) \<and> return_errors opts \<longrightarrow>
            no_root_msg r \<in> set errors')))"
  by (auto simp: steps_1_2_def resource_check_irods_files_def Let_def step3_def summary_def
        collect_def)

theorem step3_after_steps_1_2_counterexample:
  "\<not> irods_exists nothing_exists
       (get_irods_storage (local_resource\<lparr>files := [unnamed_file]\<rparr>))
       (rpath_of (local_resource\<lparr>files := [unnamed_file]\<rparr>)) \<and>
   resource_check_irods_files 1 nothing_exists (local_resource\<lparr>files := [unnamed_file]\<rparr>)
     stopping_options =
     (Some (Inl (ValidationError (missing_in_irods_msg None None None))),
      [Print ''ERROR: no valid file name defined for abc (GenericResource)'',
       LogError (missing_in_irods_msg None None None)])"
  by code_simp

theorem step3_after_steps_1_2_witness:
  "is_federated federated_resource \<and> \<not> remote_use_irods federation_unreachable \<and>
   steps_1_2 0 federation_unreachable federated_resource default_options =
     (Some (Inr ([], 0)), [LogInfo (skipping_msg federated_resource)]) \<and>
   resource_check_irods_files 0 federation_unreachable federated_resource default_options =
     (Some (Inr ([], 1)),
      [LogInfo (federation_prefix_msg federated_resource),
       LogInfo (skipping_msg federated_resource),
       CallExists Federated ''/zone/home/abc'',
       LogError (no_root_msg federated_resource),
       LogError (affected_msg federated_resource)])"
proof -
  have a: "is_federated federated_resource \<and> \<not> remote_use_irods federation_unreachable"
    by code_simp
  have b: "steps_1_2 0 federation_unreachable federated_resource default_options =
     (Some (Inr ([], 0)), [LogInfo (skipping_msg federated_resource)])"
    by code_simp
  have c: "resource_check_irods_files 0 federation_unreachable federated_resource
             default_options =
     (Some (Inr ([], 1)),
      [LogInfo (federation_prefix_msg federated_resource),
       LogInfo (skipping_msg federated_resource),
       CallExists Federated ''/zone/home/abc'',
       LogError (no_root_msg federated_resource),
       LogError (affected_msg federated_resource)])"
    by code_simp
  from step3_after_steps_1_2 [of federated_resource federation_unreachable 0 default_options]
    a b c
  show ?thesis by blast
qed

section \<open>A resource without records\<close>

text \<open>
  C5 (amended).  For a resource that owns no file record, whose root path exists and
  whose content directory \<open>file_path\<close> (root, then \<open>data/contents\<close>) is listed by the
  storage as empty, \<open>resource_check_irods_files\<close> returns no error and the count 0.
\<close>

theorem empty_resource_is_consistent:
  assumes "files r = []"
      and "irods_exists e (get_irods_storage r) (rpath_of r)"
      and "irods_listdir e (get_irods_storage r) (file_path r) = Some ([], [])"
  shows "fst (resource_check_irods_files (Suc fuel) e r opts) = Some (Inr ([], 0))"
  using assms
  by (simp add: resource_check_irods_files_def steps_1_2_def step3_def summary_def Let_def)

theorem empty_resource_counterexample:
  "files local_resource = [] \<and>
   irods_exists empty_root (get_irods_storage local_resource) (rpath_of local_resource) \<and>
   irods_listdir empty_root (get_irods_storage local_resource) (rpath_of local_resource) =
     Some ([], []) \<and>
   resource_check_irods_files 1 empty_root local_resource default_options =
     (Some (Inr ([], 1)),
      [CallListdir Default ''abc/data/contents'',
       LogError (listing_failed_msg ''abc/data/contents''),
       CallExists Default ''abc'',
       LogError (affected_msg local_resource)])"
  by code_simp

theorem empty_resource_witness:
  "files local_resource = [] \<and>
   irods_exists everything_exists (get_irods_storage local_resource)
     (rpath_of local_resource) \<and>
   irods_listdir everything_exists (get_irods_storage local_resource)
     (file_path local_resource) = Some ([], []) \<and>
   fst (resource_check_irods_files 1 everything_exists local_resource default_options) =
     Some (Inr ([], 0))"
proof -
  have a: "files local_resource = []"
    by (simp add: local_resource_def)
  have b: "irods_exists everything_exists (get_irods_storage local_resource)
     (rpath_of local_resource)"
    by (simp add: everything_exists_def)
  have c: "irods_listdir everything_exists (get_irods_storage local_resource)
     (file_path local_resource) = Some ([], [])"
    by (simp add: everything_exists_def)
  from empty_resource_is_consistent [OF a b c, of 0 default_options] a b c
  show ?thesis by simp
qed

section \<open>Listing failures during the walk\<close>









section \<open>Resolving a fully qualified path\<close>

lemma join2_plain:
  "\<not> startswith b ''/'' \<Longrightarrow> a \<noteq> [] \<Longrightarrow> \<not> endswith_slash a \<Longrightarrow> join2 a b = a @ ''/'' @ b"
  by (simp add: join2_def)

lemma startswith_slash: "startswith s ''/'' = (s \<noteq> [] \<and> hd s = CHR ''/'')"
  by (cases s) (auto simp: startswith_def)

lemma split_well_formed:
  assumes wf: "well_formed_relative rest" and slash: "CHR ''/'' \<in> set rest"
  shows "fst (os_path_split rest) \<noteq> [] \<and>
         \<not> startswith (fst (os_path_split rest)) ''/'' \<and>
         \<not> endswith_slash (fst (os_path_split rest)) \<and>
         CHR ''/'' \<notin> set (snd (os_path_split rest)) \<and>
         rest = fst (os_path_split rest) @ ''/'' @ snd (os_path_split rest)"
proof -
  let ?P = "\<lambda>c. c \<noteq> CHR ''/''"
  let ?tk = "takeWhile ?P (rev rest)"
  let ?dr = "dropWhile ?P (rev rest)"
  from slash have "?dr \<noteq> []" by auto
  with hd_dropWhile [of ?P "rev rest"] obtain ys where dr: "?dr = CHR ''/'' # ys"
    by (cases ?dr) auto
  have "rev rest = ?tk @ ?dr" by simp
  then have "rest = rev ?dr @ rev ?tk"
    by (metis rev_append rev_rev_ident)
  with dr obtain t where rest: "rest = rev ys @ ''/'' @ t" and t: "t = rev ?tk" by simp
  have ys_ne: "ys \<noteq> []"
  proof
    assume "ys = []"
    with rest have "startswith rest ''/''" by (simp add: startswith_def)
    with wf show False by (simp add: well_formed_relative_def)
  qed
  have last_ys: "last ys \<noteq> CHR ''/''"
  proof
    assume "last ys = CHR ''/''"
    with ys_ne have "hd (rev ys) = CHR ''/''" by (simp add: hd_rev)
    with ys_ne rest have "startswith rest ''/''"
      by (cases "rev ys") (auto simp: startswith_def)
    with wf show False by (simp add: well_formed_relative_def)
  qed
  have hd_ys: "hd ys \<noteq> CHR ''/''"
  proof
    assume h: "hd ys = CHR ''/''"
    with ys_ne obtain ys' where "ys = CHR ''/'' # ys'" by (cases ys) auto
    with rest have "rest = rev ys' @ ''//'' @ t" by simp
    then have "sublist ''//'' rest" by (metis sublist_appendI)
    with wf show False by (simp add: well_formed_relative_def)
  qed
  have not_all: "rev ys @ ''/'' \<noteq> replicate (length (rev ys @ ''/'')) (CHR ''/'')"
  proof
    assume "rev ys @ ''/'' = replicate (length (rev ys @ ''/'')) (CHR ''/'')"
    then have "set (rev ys @ ''/'') \<subseteq> {CHR ''/''}"
      by (metis set_replicate_conv_if empty_subsetI subset_refl)
    moreover from ys_ne have "last ys \<in> set (rev ys @ ''/'')" by simp
    ultimately have "last ys = CHR ''/''" by blast
    with last_ys show False by simp
  qed
  from hd_ys ys_ne have dw: "dropWhile (\<lambda>c. c = CHR ''/'') ys = ys"
    by (cases ys) auto
  from dr not_all dw have f: "fst (os_path_split rest) = rev ys"
    by (simp add: os_path_split_def Let_def rstrip_slash_def)
  have s: "snd (os_path_split rest) = rev ?tk"
    by (simp add: os_path_split_def Let_def)
  have c1: "CHR ''/'' \<notin> set (rev ?tk)"
    using set_takeWhileD [of "CHR ''/''" ?P "rev rest"] by auto
  from ys_ne last_ys have c2: "\<not> startswith (rev ys) ''/''"
    by (simp add: startswith_slash hd_rev)
  from ys_ne hd_ys have c3: "\<not> endswith_slash (rev ys)"
    by (simp add: endswith_slash_def last_rev)
  from ys_ne have c4: "rev ys \<noteq> []" by simp
  from rest have c5: "rest = rev ys @ ''/'' @ rev ?tk"
    unfolding t .
  show ?thesis
    unfolding f s using c1 c2 c3 c4 c5 by blast
qed

lemma rebuild_well_formed:
  assumes wf: "well_formed_relative rest" and base: "fp \<noteq> []" "\<not> endswith_slash fp"
  shows "os_path_join fp
           (case fst (split_relpath rest) of
              Some fo \<Rightarrow> [fo, snd (split_relpath rest)]
            | None \<Rightarrow> [snd (split_relpath rest)]) = fp @ ''/'' @ rest"
proof (cases "CHR ''/'' \<in> set rest")
  case True
  let ?h = "fst (os_path_split rest)"
  let ?t = "snd (os_path_split rest)"
  from split_well_formed [OF wf True] have
    h: "?h \<noteq> []" "\<not> startswith ?h ''/''" "\<not> endswith_slash ?h" and
    t: "CHR ''/'' \<notin> set ?t" and rest: "rest = ?h @ ''/'' @ ?t"
    by blast+
  from h base have j1: "join2 fp ?h = fp @ ''/'' @ ?h"
    by (simp add: join2_plain)
  have t': "\<not> startswith ?t ''/''"
  proof
    assume "startswith ?t ''/''"
    then have "?t \<noteq> []" and "hd ?t = CHR ''/''"
      by (simp_all add: startswith_slash)
    with hd_in_set [of ?t] t show False by simp
  qed
  from h have "fp @ ''/'' @ ?h \<noteq> []" "\<not> endswith_slash (fp @ ''/'' @ ?h)"
    by (simp_all add: endswith_slash_def)
  with t' have "join2 (fp @ ''/'' @ ?h) ?t = (fp @ ''/'' @ ?h) @ ''/'' @ ?t"
    by (rule join2_plain)
  with j1 True rest show ?thesis
    by (simp add: split_relpath_def os_path_join_def)
next
  case False
  from wf have "\<not> startswith rest ''/''"
    by (simp add: well_formed_relative_def)
  with base have "join2 fp rest = fp @ ''/'' @ rest"
    by (simp add: join2_plain)
  with False show ?thesis
    by (simp add: split_relpath_def os_path_join_def)
qed


lemma join2_contents:
  "join2 x ''contents'' \<noteq> [] \<and> \<not> endswith_slash (join2 x ''contents'')"
  by (simp add: join2_def startswith_def endswith_slash_def)

lemma file_path_tail: "file_path r \<noteq> [] \<and> \<not> endswith_slash (file_path r)"
  by (simp add: file_path_def os_path_join_def join2_contents)

lemma join2_data_contents:
  "join2 (join2 (f @ ''/'' @ s) ''data'') ''contents'' =
   f @ ''/'' @ join2 (join2 s ''data'') ''contents''"
  by (auto simp: join2_def startswith_def endswith_slash_def)

lemma file_path_federated:
  assumes "resource_federation_path r = Some f" and "f \<noteq> []"
      and "well_formed_resource r"
  shows "file_path r = f @ ''/'' @ os_path_join (short_id r) [''data'', ''contents'']"
proof -
  from assms have fed: "is_federated r"
    by (simp add: is_federated_def)
  with assms have "\<not> endswith_slash f" "\<not> startswith (short_id r) ''/''"
    by (auto simp: well_formed_resource_def str_of_def)
  with assms(2) have "join2 f (short_id r) = f @ ''/'' @ short_id r"
    by (simp add: join2_plain)
  with fed assms(1) have "file_path r =
      join2 (join2 (f @ ''/'' @ short_id r) ''data'') ''contents''"
    by (simp add: file_path_def root_path_def os_path_join_def str_of_def)
  then show ?thesis
    by (simp only: join2_data_contents os_path_join_def foldl.simps)
qed

lemma strip_fully_qualified:
  assumes wf: "well_formed_resource r" and p: "p = file_path r @ ''/'' @ rest"
  shows "fst (strip_qualification e r p t) = Inr rest \<or>
         (t \<and> (\<exists>m. fst (strip_qualification e r p t) = Inl (ValidationError m)))"
proof (cases "is_federated r")
  case True
  then obtain f where f: "resource_federation_path r = Some f" "f \<noteq> []"
    by (auto simp: is_federated_def)
  let ?l = "os_path_join (short_id r) [''data'', ''contents'']"
  from file_path_federated [OF f wf] p have p': "p = (f @ ''/'') @ (?l @ ''/'') @ rest"
    by simp
  then have a: "startswith p (f @ ''/'')"
    by (simp add: startswith_def)
  from p' have b: "drop (length (f @ ''/'')) p = (?l @ ''/'') @ rest"
    by simp
  then have c: "startswith (drop (length (f @ ''/'')) p) (?l @ ''/'')"
    by (simp add: startswith_def)
  from b have d: "drop (length (?l @ ''/'')) (drop (length (f @ ''/'')) p) = rest"
    by simp
  have "strip_qualification e r p t =
          (if fst (test_missing e (get_irods_storage r) t p)
           then (Inl (ValidationError ''Federated path does not exist in irods''),
                  snd (test_missing e (get_irods_storage r) t p))
           else (Inr rest, snd (test_missing e (get_irods_storage r) t p)))"
    unfolding strip_qualification_def Let_def f(1) option.case
    using f(2) a c d by (simp only: if_True simp_thms)
  then show ?thesis
    by (cases t) (simp_all add: test_missing_def)
next
  case False
  then have f: "(case resource_federation_path r of None \<Rightarrow> [] | Some fp \<Rightarrow> fp) = []"
    by (auto simp: is_federated_def split: option.splits)
  from False have l: "os_path_join (short_id r) [''data'', ''contents''] = file_path r"
    by (simp add: file_path_def root_path_def)
  from p have a: "startswith p (file_path r @ ''/'')"
    by (simp add: startswith_def)
  from p have d: "drop (length (file_path r @ ''/'')) p = rest"
    by simp
  have "strip_qualification e r p t =
          (if fst (test_missing e (get_irods_storage r) t p)
           then (Inl (ValidationError ''Local path does not exist in irods''),
                  snd (test_missing e (get_irods_storage r) t p))
           else (Inr rest, snd (test_missing e (get_irods_storage r) t p)))"
    unfolding strip_qualification_def Let_def f l
    using a d by (simp only: if_True if_False simp_thms)
  then show ?thesis
    by (cases t) (simp_all add: test_missing_def)
qed


lemma get_resource_file_path_join:
  "get_resource_file_path r base folder =
     os_path_join (file_path r) (case folder of Some fo \<Rightarrow> [fo, base] | None \<Rightarrow> [base])"
  by (simp add: get_resource_file_path_def split: option.splits)

lemma storage_path_fully_qualified:
  assumes wf: "well_formed_resource r" and p: "p = file_path r @ ''/'' @ rest"
      and rest: "well_formed_relative rest"
  shows "fst (get_path_from_storage_path e r p t) = Inr p \<or>
         (t \<and> (\<exists>m. fst (get_path_from_storage_path e r p t) = Inl (ValidationError m)))"
proof -
  obtain res ev1 where s: "strip_qualification e r p t = (res, ev1)"
    by (cases "strip_qualification e r p t")
  from strip_fully_qualified [OF wf p, of e t] s
  consider (ok) "res = Inr rest" | (missing) m where "t" "res = Inl (ValidationError m)"
    by auto
  then show ?thesis
  proof cases
    case ok
    obtain folder base where fb: "split_relpath rest = (folder, base)"
      by (cases "split_relpath rest")
    from fb have fs: "fst (split_relpath rest) = folder" "snd (split_relpath rest) = base"
      by simp_all
    from file_path_tail [of r] have "file_path r \<noteq> []" "\<not> endswith_slash (file_path r)"
      by simp_all
    from rebuild_well_formed [OF rest this] p
    have abspath: "get_resource_file_path r base folder = p"
      unfolding fs by (simp add: get_resource_file_path_join)
    from s ok fb abspath show ?thesis
      by (cases t)
         (simp_all add: get_path_from_storage_path_def path_is_acceptable_def
            resource_path_is_acceptable_def get_path_def test_missing_def)
  next
    case missing
    with s show ?thesis
      by (simp add: get_path_from_storage_path_def path_is_acceptable_def
            resource_path_is_acceptable_def)
  qed
qed

text \<open>
  C7.  For a resource with a well-formed root and a well-formed fully qualified path
  \<open>p\<close> of it: without existence tests the resolution of \<open>p\<close>
  (\<open>resource_path_is_acceptable\<close>, then \<open>get_resource_file_path\<close>) succeeds and yields
  \<open>p\<close>; with or without them, whenever it succeeds it yields \<open>p\<close> itself, so resolving
  the result again yields the same path.
\<close>

theorem resolution_round_trip:
  assumes "well_formed_resource r" and "fully_qualified r p"
  shows "fst (get_path_from_storage_path e r p False) = Inr p \<and>
         (\<forall>q. fst (get_path_from_storage_path e r p test_exists) = Inr q \<longrightarrow>
              q = p \<and> fst (get_path_from_storage_path e r q test_exists) = Inr q)"
proof -
  from assms(2) obtain rest where p: "p = file_path r @ ''/'' @ rest"
    and rest: "well_formed_relative rest"
    by (auto simp: fully_qualified_def startswith_def prefix_def)
  from storage_path_fully_qualified [OF assms(1) p rest, of e False]
  have "fst (get_path_from_storage_path e r p False) = Inr p"
    by simp
  moreover from storage_path_fully_qualified [OF assms(1) p rest, of e test_exists]
  have "\<forall>q. fst (get_path_from_storage_path e r p test_exists) = Inr q \<longrightarrow>
              q = p \<and> fst (get_path_from_storage_path e r q test_exists) = Inr q"
    by auto
  ultimately show ?thesis by blast
qed

theorem resolution_round_trip_witness:
  "well_formed_resource federated_resource \<and>
   fully_qualified federated_resource ''/zone/home/abc/data/contents/x/y.txt'' \<and>
   resource_path_is_acceptable everything_exists federated_resource
     ''/zone/home/abc/data/contents/x/y.txt'' True =
     (Inr (Some ''x'', ''y.txt''),
      [CallExists Federated ''/zone/home/abc/data/contents/x/y.txt'',
       CallExists Federated ''/zone/home/abc/data/contents/x/y.txt'']) \<and>
   get_resource_file_path federated_resource ''y.txt'' (Some ''x'') =
     ''/zone/home/abc/data/contents/x/y.txt'' \<and>
   fst (get_path_from_storage_path everything_exists federated_resource
          ''/zone/home/abc/data/contents/x/y.txt'' True) =
     Inr ''/zone/home/abc/data/contents/x/y.txt'' \<and>
   fst (get_path_from_storage_path everything_exists federated_resource
          ''/zone/home/abc/data/contents/x/y.txt'' False) =
     Inr ''/zone/home/abc/data/contents/x/y.txt''"
proof -
  have a: "well_formed_resource federated_resource"
    by code_simp
  have b: "fully_qualified federated_resource ''/zone/home/abc/data/contents/x/y.txt''"
    by code_simp
  have c: "resource_path_is_acceptable everything_exists federated_resource
     ''/zone/home/abc/data/contents/x/y.txt'' True =
     (Inr (Some ''x'', ''y.txt''),
      [CallExists Federated ''/zone/home/abc/data/contents/x/y.txt'',
       CallExists Federated ''/zone/home/abc/data/contents/x/y.txt''])"
    by code_simp
  have d: "get_resource_file_path federated_resource ''y.txt'' (Some ''x'') =
     ''/zone/home/abc/data/contents/x/y.txt''"
    by code_simp
  have f: "fst (get_path_from_storage_path everything_exists federated_resource
          ''/zone/home/abc/data/contents/x/y.txt'' True) =
     Inr ''/zone/home/abc/data/contents/x/y.txt''"
    by code_simp
  from resolution_round_trip [OF a b, of everything_exists True] a b c d f
  show ?thesis by blast
qed

section \<open>The closing report\<close>



end
